theory Spec2Isabelle
  imports
    Complex_Main
    "HOL-Library.AList"
    "HOL-Library.Char_ord"
    "HOL-Library.List_Lexorder"
    "HOL-Library.Sublist"
begin

section \<open>mp3extra: embedding cover art and lyrics into ID3v2 tags\<close>

text \<open>
  The program is \<^verbatim>\<open>src/main.go\<close>: three functions (\<^verbatim>\<open>downloadLrc\<close>,
  \<^verbatim>\<open>coverArtUrl\<close>, \<^verbatim>\<open>fetchAlbumArtURL\<close>) and \<^verbatim>\<open>main\<close>. Everything it does
  to the outside (the file system, the two HTTP services, standard output) is recorded in a
  trace of events, in the order of the calls; the answers of the outside are read from a
  \<open>world\<close>, which is a parameter of every definition. A Go \<^verbatim>\<open>error\<close> is a value of
  the type \<open>error\<close>; \<^verbatim>\<open>log.Fatal\<close>, \<^verbatim>\<open>os.Exit\<close> and a failed type assertion end the
  run with an \<open>outcome\<close>. The deferred \<^verbatim>\<open>Close\<close> calls release handles, write
  nothing and are not events.
\<close>

subsection \<open>Data\<close>

type_synonym bytes = string

text \<open>Go errors, by the place they come from. \<open>Errorf\<close> is a value built by
  \<^verbatim>\<open>fmt.Errorf\<close> in this program; the others are handed over by a collaborator.\<close>

datatype error =
    Errorf string
  | UrlError string
  | JsonError string
  | PathError string
  | OtherError string

text \<open>\<^verbatim>\<open>lrclibResult\<close> and \<^verbatim>\<open>itunesResult\<close> (main.go, lines 19-29 and 51-55).\<close>

record lrclibResult =
  ID :: int
  Name :: string
  TrackName :: string
  ArtistName :: string
  AlbumName :: string
  Duration :: real
  Instrumental :: bool
  PlainLyrics :: string
  SyncedLyrics :: string

record itunesEntry =
  ArtworkURL100 :: string

record itunesResult =
  Results :: "itunesEntry list"

text \<open>The frames of the ID3 library that the program builds or inspects. A frame of any
  other Go type is \<open>OtherFrame\<close> with the name of its type.\<close>

datatype encoding = EncodingISO | EncodingUTF16 | EncodingUTF16BE | EncodingUTF8

record text_frame =
  tf_Encoding :: encoding
  tf_Text :: string

record comment_frame =
  cf_Encoding :: encoding
  cf_Language :: string
  cf_Description :: string
  cf_Text :: string

record picture_frame =
  pf_Encoding :: encoding
  pf_MimeType :: string
  pf_PictureType :: nat
  pf_Description :: string
  pf_Picture :: bytes

record uslt_frame =
  ul_Encoding :: encoding
  ul_Language :: string
  ul_ContentDescriptor :: string
  ul_Lyrics :: string

datatype framer =
    TextFrame text_frame
  | CommentFrame comment_frame
  | PictureFrame picture_frame
  | UnsynchronisedLyricsFrame uslt_frame
  | OtherFrame string

definition PTFrontCover :: nat where
  "PTFrontCover = 3"

text \<open>The tag container: for each frame identifier the frames stored under it, in order
  (what \<^verbatim>\<open>AllFrames\<close> returns), and the default encoding.\<close>

record tag =
  frames :: "(string \<times> framer list) list"
  defaultEncoding :: encoding

text \<open>An HTTP response, seen through the three ways the program consumes one: the
  declared content type, \<^verbatim>\<open>io.ReadAll\<close> of the body, and the JSON decoder run on the
  body into either of the two result types.\<close>

record response =
  content_type :: string
  read_all :: "error + bytes"
  decode_lrclib :: "error + lrclibResult list"
  decode_itunes :: "error + itunesResult"

text \<open>The outside world. \<open>http_Get w n u\<close> is the answer to a GET of \<open>u\<close> issued after
  \<open>n\<close> earlier requests of the run. \<open>tag_Save\<close> is \<open>None\<close> when the save succeeds.
  \<open>UniqueIdentifier\<close>, \<open>fmt_Sprint\<close> and \<open>DetectContentType\<close> are pure library
  functions, taken as they are.\<close>

record world =
  id3v2_Open :: "string \<Rightarrow> error + tag"
  os_ReadFile :: "string \<Rightarrow> error + bytes"
  http_Get :: "nat \<Rightarrow> string \<Rightarrow> error + response"
  tag_Save :: "tag \<Rightarrow> error option"
  UniqueIdentifier :: "framer \<Rightarrow> string"
  fmt_Sprint :: "framer \<Rightarrow> string"
  DetectContentType :: "bytes \<Rightarrow> string"

datatype event =
    Usage
  | Open string
  | Stdout string
  | HttpGet string
  | ReadFile string
  | Save tag

text \<open>How a run ends: \<open>Returned\<close> when \<^verbatim>\<open>main\<close> returns, \<open>Exit n\<close> for
  \<^verbatim>\<open>os.Exit(n)\<close>, \<open>Fatal p e\<close> for \<^verbatim>\<open>log.Fatalf\<close> with the message prefix \<open>p\<close> and the
  error \<open>e\<close> (the process exits with status 1), \<open>Panic\<close> for a failed type assertion.\<close>

datatype outcome = Returned | Exit nat | Fatal string error | Panic

text \<open>The parsed command line (main.go, lines 91-101); \<open>mp3File\<close> is
  \<^verbatim>\<open>flag.Arg(0)\<close>, the empty string when there is no positional argument.\<close>

record flags =
  embedImage :: string
  embedLyrics :: string
  embedLang :: string
  dryRun :: bool
  mp3File :: string

fun is_HttpGet :: "event \<Rightarrow> bool" where
  "is_HttpGet (HttpGet u) = True"
| "is_HttpGet e = False"

fun is_Save :: "event \<Rightarrow> bool" where
  "is_Save (Save t) = True"
| "is_Save e = False"

fun is_file_io :: "event \<Rightarrow> bool" where
  "is_file_io (Open f) = True"
| "is_file_io (ReadFile f) = True"
| "is_file_io (Save t) = True"
| "is_file_io e = False"

subsection \<open>Library functions the program calls\<close>

text \<open>\<^verbatim>\<open>url.QueryEscape\<close>: letters, digits and \<^verbatim>\<open>-_.~\<close> stay, a space becomes
  \<^verbatim>\<open>+\<close>, every other byte becomes \<^verbatim>\<open>%XX\<close> in upper-case hexadecimal.\<close>

definition unreserved :: "char \<Rightarrow> bool" where
  "unreserved c \<longleftrightarrow>
     (let n = (of_char c :: nat) in
      (97 \<le> n \<and> n \<le> 122) \<or> (65 \<le> n \<and> n \<le> 90) \<or> (48 \<le> n \<and> n \<le> 57)
      \<or> c = CHR ''-'' \<or> c = CHR ''_'' \<or> c = CHR ''.'' \<or> c = CHR ''~'')"

definition upperhex :: "nat \<Rightarrow> char" where
  "upperhex d = ''0123456789ABCDEF'' ! d"

definition escape_char :: "char \<Rightarrow> string" where
  "escape_char c =
     (if unreserved c then [c]
      else if c = CHR '' '' then ''+''
      else [CHR ''%'', upperhex (of_char c div 16), upperhex (of_char c mod 16)])"

definition QueryEscape :: "string \<Rightarrow> string" where
  "QueryEscape s = concat (map escape_char s)"

text \<open>\<^verbatim>\<open>strings.Replace(s, old, new, 1)\<close>: the first occurrence of \<open>old\<close> in \<open>s\<close>, if
  there is one, is replaced by \<open>new\<close>.\<close>

fun Replace1 :: "string \<Rightarrow> string \<Rightarrow> string \<Rightarrow> string" where
  "Replace1 [] old new = (if old = [] then new else [])"
| "Replace1 (c # cs) old new =
     (if prefix old (c # cs) then new @ drop (length old) (c # cs)
      else c # Replace1 cs old new)"

text \<open>The tag operations of the ID3 library. \<^verbatim>\<open>CommonID\<close> maps a description to its
  frame identifier (the same in ID3v2.3 and ID3v2.4 for the descriptions used here) and
  returns an unknown description unchanged.\<close>

definition CommonID :: "string \<Rightarrow> string" where
  "CommonID d =
     (if d = ''Comments'' then ''COMM''
      else if d = ''Attached picture'' then ''APIC''
      else if d = ''Unsynchronised lyrics/text transcription'' then ''USLT''
      else if d = ''Artist'' then ''TPE1''
      else if d = ''Title'' then ''TIT2''
      else d)"

definition GetFrames :: "tag \<Rightarrow> string \<Rightarrow> framer list" where
  "GetFrames t i = (case map_of (frames t) i of None \<Rightarrow> [] | Some fs \<Rightarrow> fs)"

definition DeleteFrames :: "string \<Rightarrow> tag \<Rightarrow> tag" where
  "DeleteFrames i t = t\<lparr>frames := AList.delete i (frames t)\<rparr>"

text \<open>Adding to the sequence of an identifier: a frame with the same unique identifier
  is replaced in place, otherwise the new frame goes to the end.\<close>

fun sequence_AddFrame :: "world \<Rightarrow> framer \<Rightarrow> framer list \<Rightarrow> framer list" where
  "sequence_AddFrame w f [] = [f]"
| "sequence_AddFrame w f (g # gs) =
     (if UniqueIdentifier w f = UniqueIdentifier w g then f # gs
      else g # sequence_AddFrame w f gs)"

definition AddFrame :: "world \<Rightarrow> string \<Rightarrow> framer \<Rightarrow> tag \<Rightarrow> tag" where
  "AddFrame w i f t =
     t\<lparr>frames := AList.update i (sequence_AddFrame w f (GetFrames t i)) (frames t)\<rparr>"

definition AddCommentFrame :: "world \<Rightarrow> comment_frame \<Rightarrow> tag \<Rightarrow> tag" where
  "AddCommentFrame w cf t = AddFrame w (CommonID ''Comments'') (CommentFrame cf) t"

definition AddAttachedPicture :: "world \<Rightarrow> picture_frame \<Rightarrow> tag \<Rightarrow> tag" where
  "AddAttachedPicture w pf t = AddFrame w (CommonID ''Attached picture'') (PictureFrame pf) t"

definition AddUnsynchronisedLyricsFrame :: "world \<Rightarrow> uslt_frame \<Rightarrow> tag \<Rightarrow> tag" where
  "AddUnsynchronisedLyricsFrame w uf t =
     AddFrame w (CommonID ''Unsynchronised lyrics/text transcription'')
       (UnsynchronisedLyricsFrame uf) t"

definition SetDefaultEncoding :: "encoding \<Rightarrow> tag \<Rightarrow> tag" where
  "SetDefaultEncoding e t = t\<lparr>defaultEncoding := e\<rparr>"

text \<open>\<^verbatim>\<open>tag.Artist()\<close> and \<^verbatim>\<open>tag.Title()\<close> read the text of the last frame stored under
  the identifier: the empty string when there is none, a panic (\<open>None\<close>) when that frame
  is not a text frame.\<close>

definition GetTextFrame :: "tag \<Rightarrow> string \<Rightarrow> string option" where
  "GetTextFrame t i =
     (case GetFrames t i of
        [] \<Rightarrow> Some ''''
      | f # fs \<Rightarrow> (case last (f # fs) of TextFrame tf \<Rightarrow> Some (tf_Text tf) | _ \<Rightarrow> None))"

definition Artist :: "tag \<Rightarrow> string option" where
  "Artist t = GetTextFrame t (CommonID ''Artist'')"

definition Title :: "tag \<Rightarrow> string option" where
  "Title t = GetTextFrame t (CommonID ''Title'')"

subsection \<open>The two lookups (main.go, lines 31-88)\<close>

definition requests :: "event list \<Rightarrow> nat" where
  "requests tr = length (filter is_HttpGet tr)"

text \<open>\<^verbatim>\<open>http.Get(u)\<close>: the request is recorded, the world answers.\<close>

definition http_get :: "world \<Rightarrow> event list \<Rightarrow> string \<Rightarrow> event list \<times> (error + response)" where
  "http_get w tr u = (tr @ [HttpGet u], http_Get w (requests tr) u)"

text \<open>The loop of \<^verbatim>\<open>downloadLrc\<close> over the decoded records (lines 43-48).\<close>

definition lyrics_not_found :: "string \<Rightarrow> string \<Rightarrow> error" where
  "lyrics_not_found artist title =
     Errorf (''Lyrics not found for '' @ artist @ '' - '' @ title)"

fun scan_results :: "string \<Rightarrow> string \<Rightarrow> lrclibResult list \<Rightarrow> error + string" where
  "scan_results artist title [] = Inl (lyrics_not_found artist title)"
| "scan_results artist title (r # rs) =
     (if ArtistName r = artist \<and> TrackName r = title then Inr (SyncedLyrics r)
      else scan_results artist title rs)"

definition lrclib_url :: "string \<Rightarrow> string \<Rightarrow> string" where
  "lrclib_url artist title =
     ''https://lrclib.net/api/search?q='' @ QueryEscape (artist @ '' '' @ title)"

definition downloadLrc ::
  "world \<Rightarrow> event list \<Rightarrow> string \<Rightarrow> string \<Rightarrow> event list \<times> (error + string)" where
  "downloadLrc w tr artist title =
     (case http_get w tr (lrclib_url artist title) of
        (tr1, Inl err) \<Rightarrow> (tr1, Inl err)
      | (tr1, Inr resp) \<Rightarrow>
          (case decode_lrclib resp of
             Inl err \<Rightarrow> (tr1, Inl err)
           | Inr results \<Rightarrow> (tr1, scan_results artist title results)))"

definition coverArtUrl :: "string \<Rightarrow> string \<Rightarrow> string" where
  "coverArtUrl artist title =
     ''https://itunes.apple.com/search?term='' @ QueryEscape (artist @ '' '' @ title)
       @ ''&media=music&limit=1''"

definition fetchAlbumArtURL ::
  "world \<Rightarrow> event list \<Rightarrow> string \<Rightarrow> event list \<times> (error + bytes \<times> string)" where
  "fetchAlbumArtURL w tr u =
     (case http_get w tr u of
        (tr1, Inl err) \<Rightarrow> (tr1, Inl err)
      | (tr1, Inr resp) \<Rightarrow>
          (case decode_itunes resp of
             Inl err \<Rightarrow> (tr1, Inl err)
           | Inr result \<Rightarrow>
               if length (Results result) = 0 then (tr1, Inl (Errorf ''Album art not found''))
               else
                 (case http_get w tr1
                         (Replace1 (ArtworkURL100 (Results result ! 0)) ''100x100'' ''600x600'') of
                    (tr2, Inl err) \<Rightarrow> (tr2, Inl err)
                  | (tr2, Inr resp2) \<Rightarrow>
                      (case read_all resp2 of
                         Inl err \<Rightarrow> (tr2, Inl err)
                       | Inr b \<Rightarrow> (tr2, Inr (b, content_type resp2))))))"

subsection \<open>The steps of \<^verbatim>\<open>main\<close> (main.go, lines 90-250)\<close>

text \<open>Lines 113-140: in a dry run every frame is printed, the identifiers in sorted
  order.\<close>

definition summary :: "world \<Rightarrow> framer \<Rightarrow> string" where
  "summary w v =
     (case v of
        TextFrame t \<Rightarrow> tf_Text t
      | CommentFrame t \<Rightarrow> cf_Text t
      | PictureFrame t \<Rightarrow> pf_Description t
      | _ \<Rightarrow> fmt_Sprint w v)"

definition TypeName :: "framer \<Rightarrow> string" where
  "TypeName v =
     (case v of
        TextFrame t \<Rightarrow> ''TextFrame''
      | CommentFrame t \<Rightarrow> ''CommentFrame''
      | PictureFrame t \<Rightarrow> ''PictureFrame''
      | UnsynchronisedLyricsFrame t \<Rightarrow> ''UnsynchronisedLyricsFrame''
      | OtherFrame n \<Rightarrow> n)"

definition frame_line :: "world \<Rightarrow> string \<Rightarrow> framer \<Rightarrow> string" where
  "frame_line w k v =
     (let s = summary w v;
          s = (if length s > 70 then take 70 s @ ''...'' else s);
          s = s @ '' ['' @ TypeName v @ '']''
      in k @ '': '' @ s @ ''\<newline>'')"

definition print_frames :: "world \<Rightarrow> tag \<Rightarrow> event list" where
  "print_frames w t =
     (let ks = sort (remdups (map fst (frames t)))
      in concat (map (\<lambda>k. map (\<lambda>v. Stdout (frame_line w k v)) (GetFrames t k)) ks))"

text \<open>Lines 145-155: the first comment frame is written again in ISO-8859-1, in place
  of all comment frames. \<open>None\<close> is the panic of the type assertion.\<close>

definition normalize_comments :: "world \<Rightarrow> flags \<Rightarrow> tag \<Rightarrow> tag option" where
  "normalize_comments w fl t =
     (let comments = GetFrames t (CommonID ''Comments'') in
      if length comments > 0 then
        (case comments ! 0 of
           CommentFrame c0 \<Rightarrow>
             (let comment = \<lparr>cf_Encoding = EncodingISO, cf_Language = embedLang fl,
                             cf_Description = cf_Description c0, cf_Text = cf_Text c0\<rparr>
              in Some (AddCommentFrame w comment (DeleteFrames (CommonID ''Comments'') t)))
         | _ \<Rightarrow> None)
      else Some t)"

definition cover_picture :: "bytes \<Rightarrow> string \<Rightarrow> picture_frame" where
  "cover_picture b ct =
     \<lparr>pf_Encoding = EncodingISO, pf_MimeType = ct, pf_PictureType = PTFrontCover,
      pf_Description = ''Cover Art'', pf_Picture = b\<rparr>"

definition set_picture :: "world \<Rightarrow> picture_frame \<Rightarrow> tag \<Rightarrow> tag" where
  "set_picture w pic t =
     AddAttachedPicture w pic (DeleteFrames (CommonID ''Attached picture'') t)"

text \<open>Lines 157-199.\<close>

definition image_step ::
  "world \<Rightarrow> flags \<Rightarrow> event list \<Rightarrow> tag \<Rightarrow> event list \<times> (outcome + tag)" where
  "image_step w fl tr t =
     (if embedImage fl \<noteq> '''' then
        if embedImage fl = ''auto'' then
          (case (Artist t, Title t) of
             (Some a, Some ti) \<Rightarrow>
               (let u = coverArtUrl a ti in
                if dryRun fl then
                  (tr @ [Stdout ''\<newline>'', Stdout (''Covert art: '' @ u @ ''\<newline>'')], Inr t)
                else
                  (case fetchAlbumArtURL w tr u of
                     (tr1, Inl err) \<Rightarrow> (tr1, Inl (Fatal ''Error fetch album art image: '' err))
                   | (tr1, Inr (b, ct)) \<Rightarrow> (tr1, Inr (set_picture w (cover_picture b ct) t))))
           | _ \<Rightarrow> (tr, Inl Panic))
        else
          if dryRun fl then
            (tr @ [Stdout ''\<newline>'', Stdout (''Covert art: '' @ embedImage fl @ ''\<newline>'')],
             Inr t)
          else
            (case os_ReadFile w (embedImage fl) of
               Inl err \<Rightarrow>
                 (tr @ [ReadFile (embedImage fl)],
                  Inl (Fatal ''Error read album art image: '' err))
             | Inr b \<Rightarrow>
                 (tr @ [ReadFile (embedImage fl)],
                  Inr (set_picture w (cover_picture b (DetectContentType w b)) t)))
      else (tr, Inr t))"

definition lyrics_frame :: "flags \<Rightarrow> string \<Rightarrow> uslt_frame" where
  "lyrics_frame fl lyrics =
     \<lparr>ul_Encoding = EncodingUTF8, ul_Language = embedLang fl,
      ul_ContentDescriptor = ''Lyrics'', ul_Lyrics = lyrics\<rparr>"

definition set_lyrics :: "world \<Rightarrow> uslt_frame \<Rightarrow> tag \<Rightarrow> tag" where
  "set_lyrics w uslt t =
     AddUnsynchronisedLyricsFrame w uslt
       (DeleteFrames (CommonID ''Unsynchronised lyrics/text transcription'') t)"

text \<open>Lines 201-239. The inner test is the one of line 202, on the image flag.\<close>

definition lyrics_step ::
  "world \<Rightarrow> flags \<Rightarrow> event list \<Rightarrow> tag \<Rightarrow> event list \<times> (outcome + tag)" where
  "lyrics_step w fl tr t =
     (if embedLyrics fl \<noteq> '''' then
        if embedImage fl = ''auto'' then
          (case (Artist t, Title t) of
             (Some a, Some ti) \<Rightarrow>
               (case downloadLrc w tr a ti of
                  (tr1, Inl err) \<Rightarrow> (tr1, Inl (Fatal '''' err))
                | (tr1, Inr lyrics) \<Rightarrow>
                    if dryRun fl then
                      (tr1 @ [Stdout ''\<newline>'', Stdout (lyrics @ ''\<newline>'')], Inr t)
                    else (tr1, Inr (set_lyrics w (lyrics_frame fl lyrics) t)))
           | _ \<Rightarrow> (tr, Inl Panic))
        else
          if dryRun fl then
            (tr @ [Stdout ''\<newline>'', Stdout (''Lyrics text: '' @ embedLyrics fl @ ''\<newline>'')],
             Inr t)
          else
            (case os_ReadFile w (embedLyrics fl) of
               Inl err \<Rightarrow>
                 (tr @ [ReadFile (embedLyrics fl)],
                  Inl (Fatal ''Error read lyrics file: '' err))
             | Inr b \<Rightarrow>
                 (tr @ [ReadFile (embedLyrics fl)],
                  Inr (set_lyrics w (lyrics_frame fl b) t)))
      else (tr, Inr t))"

text \<open>Lines 241-249.\<close>

definition save_step :: "world \<Rightarrow> flags \<Rightarrow> event list \<Rightarrow> tag \<Rightarrow> event list \<times> outcome" where
  "save_step w fl tr t =
     (if \<not> dryRun fl then
        (case tag_Save w t of
           Some err \<Rightarrow> (tr @ [Save t], Fatal ''Error saving MP3 file: '' err)
         | None \<Rightarrow>
             (tr @ [Save t,
                    Stdout (''Image embedded successfully in '' @ mp3File fl @ ''\<newline>'')],
              Returned))
      else (tr, Returned))"

text \<open>The steps after the tag is open (lines 113-249).\<close>

definition edit_tag :: "world \<Rightarrow> flags \<Rightarrow> event list \<Rightarrow> tag \<Rightarrow> event list \<times> outcome" where
  "edit_tag w fl tr t0 =
     (let tr1 = (if dryRun fl then tr @ print_frames w t0 else tr);
          t1 = SetDefaultEncoding EncodingUTF16 t0
      in case normalize_comments w fl t1 of
           None \<Rightarrow> (tr1, Panic)
         | Some t2 \<Rightarrow>
             (case image_step w fl tr1 t2 of
                (tr2, Inl out) \<Rightarrow> (tr2, out)
              | (tr2, Inr t3) \<Rightarrow>
                  (case lyrics_step w fl tr2 t3 of
                     (tr3, Inl out) \<Rightarrow> (tr3, out)
                   | (tr3, Inr t4) \<Rightarrow> save_step w fl tr3 t4)))"

definition main :: "world \<Rightarrow> flags \<Rightarrow> event list \<times> outcome" where
  "main w fl =
     (if mp3File fl = '''' then ([Usage], Exit 1)
      else
        (case id3v2_Open w (mp3File fl) of
           Inl err \<Rightarrow> ([Open (mp3File fl)], Fatal ''Error opening MP3 file: '' err)
         | Inr t0 \<Rightarrow> edit_tag w fl [Open (mp3File fl)] t0))"

subsection \<open>The lyrics step of the revised copy\<close>

text \<open>\<^verbatim>\<open>src/unnamed/part_000\<close> is a second copy of the program. Its lyrics lookup
  (lines 35-57) differs from the one above in the capital letter of the not-found
  message, and its lyrics step (lines 232-272) in the inner test, which is on the lyrics
  flag (line 234), and in one printed text.\<close>

fun scan_results_part_000 :: "string \<Rightarrow> string \<Rightarrow> lrclibResult list \<Rightarrow> error + string" where
  "scan_results_part_000 artist title [] =
     Inl (Errorf (''lyrics not found for '' @ artist @ '' - '' @ title))"
| "scan_results_part_000 artist title (r # rs) =
     (if ArtistName r = artist \<and> TrackName r = title then Inr (SyncedLyrics r)
      else scan_results_part_000 artist title rs)"

definition downloadLrc_part_000 ::
  "world \<Rightarrow> event list \<Rightarrow> string \<Rightarrow> string \<Rightarrow> event list \<times> (error + string)" where
  "downloadLrc_part_000 w tr artist title =
     (case http_get w tr (lrclib_url artist title) of
        (tr1, Inl err) \<Rightarrow> (tr1, Inl err)
      | (tr1, Inr resp) \<Rightarrow>
          (case decode_lrclib resp of
             Inl err \<Rightarrow> (tr1, Inl err)
           | Inr results \<Rightarrow> (tr1, scan_results_part_000 artist title results)))"

definition lyrics_step_part_000 ::
  "world \<Rightarrow> flags \<Rightarrow> event list \<Rightarrow> tag \<Rightarrow> event list \<times> (outcome + tag)" where
  "lyrics_step_part_000 w fl tr t =
     (if embedLyrics fl \<noteq> '''' then
        if embedLyrics fl = ''auto'' then
          (case (Artist t, Title t) of
             (Some a, Some ti) \<Rightarrow>
               (case downloadLrc_part_000 w tr a ti of
                  (tr1, Inl err) \<Rightarrow> (tr1, Inl (Fatal '''' err))
                | (tr1, Inr lyrics) \<Rightarrow>
                    if dryRun fl then
                      (tr1 @ [Stdout ''\<newline>'', Stdout (lyrics @ ''\<newline>'')], Inr t)
                    else (tr1, Inr (set_lyrics w (lyrics_frame fl lyrics) t)))
           | _ \<Rightarrow> (tr, Inl Panic))
        else
          if dryRun fl then
            (tr @ [Stdout ''\<newline>'',
                   Stdout (''Lyrics text from file: '' @ embedLyrics fl @ ''\<newline>'')],
             Inr t)
          else
            (case os_ReadFile w (embedLyrics fl) of
               Inl err \<Rightarrow>
                 (tr @ [ReadFile (embedLyrics fl)],
                  Inl (Fatal ''Error reading lyrics file: '' err))
             | Inr b \<Rightarrow>
                 (tr @ [ReadFile (embedLyrics fl)],
                  Inr (set_lyrics w (lyrics_frame fl b) t)))
      else (tr, Inr t))"

subsection \<open>Example worlds and runs\<close>

text \<open>A tag by the artist \<open>A\<close> with the title \<open>T\<close> and two comment frames, and the
  records, responses and worlds used for the concrete runs below.\<close>

definition first_comment :: comment_frame where
  "first_comment =
     \<lparr>cf_Encoding = EncodingUTF16, cf_Language = ''eng'', cf_Description = ''note'',
      cf_Text = ''hello''\<rparr>"

definition second_comment :: comment_frame where
  "second_comment =
     \<lparr>cf_Encoding = EncodingUTF8, cf_Language = ''fra'', cf_Description = ''autre'',
      cf_Text = ''salut''\<rparr>"

definition example_tag :: tag where
  "example_tag =
     \<lparr>frames =
        [(''TPE1'', [TextFrame \<lparr>tf_Encoding = EncodingUTF8, tf_Text = ''A''\<rparr>]),
         (''TIT2'', [TextFrame \<lparr>tf_Encoding = EncodingUTF8, tf_Text = ''T''\<rparr>]),
         (''COMM'', [CommentFrame first_comment, CommentFrame second_comment])],
      defaultEncoding = EncodingISO\<rparr>"

definition record_of :: "string \<Rightarrow> string \<Rightarrow> string \<Rightarrow> lrclibResult" where
  "record_of artist title synced =
     \<lparr>ID = 1, Name = title, TrackName = title, ArtistName = artist, AlbumName = '''',
      Duration = 0, Instrumental = False, PlainLyrics = '''', SyncedLyrics = synced\<rparr>"

definition example_records :: "lrclibResult list" where
  "example_records =
     [record_of ''a'' ''T'' ''L0'', record_of ''A '' ''T'' ''L0'', record_of ''A'' ''T2'' ''L0'',
      record_of ''A'' ''T'' ''L1'', record_of ''A'' ''T'' ''L2'']"

definition no_body :: response where
  "no_body =
     \<lparr>content_type = '''', read_all = Inl (OtherError ''unexpected EOF''),
      decode_lrclib = Inl (JsonError ''unexpected end of JSON input''),
      decode_itunes = Inl (JsonError ''unexpected end of JSON input'')\<rparr>"

definition lyrics_response :: response where
  "lyrics_response = no_body\<lparr>content_type := ''application/json'',
                             decode_lrclib := Inr example_records\<rparr>"

definition search_response :: response where
  "search_response =
     no_body\<lparr>content_type := ''text/javascript'',
             decode_itunes :=
               Inr \<lparr>Results = [\<lparr>ArtworkURL100 = ''https://img.example/100x100/a100x100bb.jpg''\<rparr>]\<rparr>\<rparr>"

definition image_response :: response where
  "image_response = no_body\<lparr>content_type := ''image/jpeg'', read_all := Inr ''JFIF''\<rparr>"

definition offline_world :: world where
  "offline_world =
     \<lparr>id3v2_Open = (\<lambda>f. Inr example_tag),
      os_ReadFile = (\<lambda>f. Inr ''[00:01.00]la la''),
      http_Get = (\<lambda>n u. Inl (UrlError ''dial tcp: no route to host'')),
      tag_Save = (\<lambda>t. None),
      UniqueIdentifier = (\<lambda>f. ''ID''),
      fmt_Sprint = (\<lambda>f. ''{}''),
      DetectContentType = (\<lambda>b. ''text/plain; charset=utf-8'')\<rparr>"

definition online_world :: world where
  "online_world =
     offline_world\<lparr>http_Get :=
       (\<lambda>n u. if prefix ''https://lrclib.net/'' u then Inr lyrics_response
              else if prefix ''https://itunes.apple.com/'' u then Inr search_response
              else Inr image_response)\<rparr>"

definition garbled_world :: world where
  "garbled_world = offline_world\<lparr>http_Get := (\<lambda>n u. Inr no_body)\<rparr>"

definition flags_of :: "string \<Rightarrow> string \<Rightarrow> bool \<Rightarrow> string \<Rightarrow> flags" where
  "flags_of img lyr dry file =
     \<lparr>embedImage = img, embedLyrics = lyr, embedLang = ''jpn'', dryRun = dry,
      mp3File = file\<rparr>"

section \<open>Properties\<close>

subsection \<open>The lyrics lookup\<close>

lemma scan_results_first:
  "\<forall>x\<in>set pre. \<not> (ArtistName x = artist \<and> TrackName x = title) \<Longrightarrow>
   ArtistName r = artist \<Longrightarrow> TrackName r = title \<Longrightarrow>
   scan_results artist title (pre @ r # post) = Inr (SyncedLyrics r)"
  by (induction pre) auto

lemma scan_results_none:
  "\<forall>x\<in>set rs. \<not> (ArtistName x = artist \<and> TrackName x = title) \<Longrightarrow>
   scan_results artist title rs = Inl (lyrics_not_found artist title)"
  by (induction rs) auto

lemma downloadLrc_trace:
  "fst (downloadLrc w tr artist title) = tr @ [HttpGet (lrclib_url artist title)]"
  by (simp add: downloadLrc_def http_get_def split: sum.splits)

lemma downloadLrc_request_failed:
  "http_Get w (requests tr) (lrclib_url artist title) = Inl e \<Longrightarrow>
   snd (downloadLrc w tr artist title) = Inl e"
  by (simp add: downloadLrc_def http_get_def)

lemma downloadLrc_decode_failed:
  "http_Get w (requests tr) (lrclib_url artist title) = Inr resp \<Longrightarrow>
   decode_lrclib resp = Inl e \<Longrightarrow>
   snd (downloadLrc w tr artist title) = Inl e"
  by (simp add: downloadLrc_def http_get_def)

lemma downloadLrc_decoded:
  "http_Get w (requests tr) (lrclib_url artist title) = Inr resp \<Longrightarrow>
   decode_lrclib resp = Inr results \<Longrightarrow>
   snd (downloadLrc w tr artist title) = scan_results artist title results"
  by (simp add: downloadLrc_def http_get_def)

lemma example_urls:
  "http_Get online_world n (lrclib_url a t) = Inr lyrics_response"
  "http_Get online_world n (coverArtUrl a t) = Inr search_response"
  by (simp_all add: online_world_def offline_world_def lrclib_url_def coverArtUrl_def)

text \<open>
  C5. When the request succeeds and the body decodes to a list of records,
  \<^verbatim>\<open>downloadLrc\<close> returns the synced lyrics of the first record whose artist name and
  track name are equal to the queried artist and title (equality of the strings as they
  are, byte for byte); when no record of the list matches both, it returns the not-found
  error.
\<close>

theorem downloadLrc_first_match:
  assumes "http_Get w (requests tr) (lrclib_url artist title) = Inr resp"
    and "decode_lrclib resp = Inr results"
  shows "(\<forall>pre r post.
            results = pre @ r # post
            \<and> (\<forall>x\<in>set pre. \<not> (ArtistName x = artist \<and> TrackName x = title))
            \<and> ArtistName r = artist \<and> TrackName r = title
            \<longrightarrow> snd (downloadLrc w tr artist title) = Inr (SyncedLyrics r))
       \<and> ((\<forall>x\<in>set results. \<not> (ArtistName x = artist \<and> TrackName x = title))
            \<longrightarrow> snd (downloadLrc w tr artist title) = Inl (lyrics_not_found artist title))"
  using assms by (simp add: downloadLrc_decoded scan_results_first scan_results_none)

text \<open>On the example records the query \<open>(A, T)\<close> skips the records that differ in case,
  in a trailing space or in the title and returns the lyrics of the fourth record, not of
  the fifth; the query \<open>(A, T3)\<close> finds nothing.\<close>

theorem downloadLrc_first_match_witness:
  "http_Get online_world (requests []) (lrclib_url ''A'' ''T'') = Inr lyrics_response
   \<and> decode_lrclib lyrics_response = Inr example_records
   \<and> example_records
       = take 3 example_records @ record_of ''A'' ''T'' ''L1'' # drop 4 example_records
   \<and> snd (downloadLrc online_world [] ''A'' ''T'') = Inr ''L1''
   \<and> snd (downloadLrc online_world [] ''A'' ''T3'') = Inl (lyrics_not_found ''A'' ''T3'')"
proof -
  have get: "http_Get online_world (requests []) (lrclib_url a t) = Inr lyrics_response" for a t
    by (rule example_urls)
  have dec: "decode_lrclib lyrics_response = Inr example_records"
    by (simp add: lyrics_response_def)
  have parts: "example_records
      = take 3 example_records @ record_of ''A'' ''T'' ''L1'' # drop 4 example_records"
    by (simp add: example_records_def)
  have miss: "\<forall>x\<in>set (take 3 example_records). \<not> (ArtistName x = ''A'' \<and> TrackName x = ''T'')"
    by (simp add: example_records_def record_of_def)
  have hit: "ArtistName (record_of ''A'' ''T'' ''L1'') = ''A''
      \<and> TrackName (record_of ''A'' ''T'' ''L1'') = ''T''"
    by (simp add: record_of_def)
  have none: "\<forall>x\<in>set example_records. \<not> (ArtistName x = ''A'' \<and> TrackName x = ''T3'')"
    by (simp add: example_records_def record_of_def)
  from downloadLrc_first_match [OF get dec, of "''A''" "''T''"] parts miss hit
  have "snd (downloadLrc online_world [] ''A'' ''T'')
      = Inr (SyncedLyrics (record_of ''A'' ''T'' ''L1''))"
    by blast
  then have found: "snd (downloadLrc online_world [] ''A'' ''T'') = Inr ''L1''"
    by (simp add: record_of_def)
  from downloadLrc_first_match [OF get dec, of "''A''" "''T3''"] none
  have absent: "snd (downloadLrc online_world [] ''A'' ''T3'') = Inl (lyrics_not_found ''A'' ''T3'')"
    by blast
  from get dec parts found absent show ?thesis by blast
qed

text \<open>
  C7, as the code has it. \<^verbatim>\<open>downloadLrc\<close> fails in three ways, and each keeps its own
  error: the error of the HTTP request when the request fails, the error of the decoder
  when the body does not decode, and the not-found error, built by the function itself,
  only when the decoded list has no record that matches the artist and the title.
\<close>

theorem downloadLrc_failures:
  "(\<forall>e. http_Get w (requests tr) (lrclib_url artist title) = Inl e
        \<longrightarrow> snd (downloadLrc w tr artist title) = Inl e)
   \<and> (\<forall>resp e. http_Get w (requests tr) (lrclib_url artist title) = Inr resp
          \<and> decode_lrclib resp = Inl e
        \<longrightarrow> snd (downloadLrc w tr artist title) = Inl e)
   \<and> (\<forall>resp results. http_Get w (requests tr) (lrclib_url artist title) = Inr resp
          \<and> decode_lrclib resp = Inr results
          \<and> (\<forall>x\<in>set results. \<not> (ArtistName x = artist \<and> TrackName x = title))
        \<longrightarrow> snd (downloadLrc w tr artist title) = Inl (lyrics_not_found artist title))"
  by (simp add: downloadLrc_request_failed downloadLrc_decode_failed downloadLrc_decoded
      scan_results_none)

text \<open>The three failures, one in each example world.\<close>

theorem downloadLrc_failures_witness:
  "snd (downloadLrc offline_world [] ''A'' ''T'') = Inl (UrlError ''dial tcp: no route to host'')
   \<and> snd (downloadLrc garbled_world [] ''A'' ''T'')
       = Inl (JsonError ''unexpected end of JSON input'')
   \<and> snd (downloadLrc online_world [] ''B'' ''T'') = Inl (lyrics_not_found ''B'' ''T'')"
proof -
  have request: "http_Get offline_world (requests []) (lrclib_url ''A'' ''T'')
      = Inl (UrlError ''dial tcp: no route to host'')"
    by (simp add: offline_world_def)
  have body: "http_Get garbled_world (requests []) (lrclib_url ''A'' ''T'') = Inr no_body
      \<and> decode_lrclib no_body = Inl (JsonError ''unexpected end of JSON input'')"
    by (simp add: garbled_world_def offline_world_def no_body_def)
  have records: "http_Get online_world (requests []) (lrclib_url ''B'' ''T'') = Inr lyrics_response
      \<and> decode_lrclib lyrics_response = Inr example_records
      \<and> (\<forall>x\<in>set example_records. \<not> (ArtistName x = ''B'' \<and> TrackName x = ''T''))"
    by (simp add: example_urls lyrics_response_def example_records_def record_of_def)
  from downloadLrc_failures [of offline_world "[]" "''A''" "''T''"] request
  have a: "snd (downloadLrc offline_world [] ''A'' ''T'')
      = Inl (UrlError ''dial tcp: no route to host'')"
    by blast
  from downloadLrc_failures [of garbled_world "[]" "''A''" "''T''"] body
  have b: "snd (downloadLrc garbled_world [] ''A'' ''T'')
      = Inl (JsonError ''unexpected end of JSON input'')"
    by blast
  from downloadLrc_failures [of online_world "[]" "''B''" "''T''"] records
  have c: "snd (downloadLrc online_world [] ''B'' ''T'') = Inl (lyrics_not_found ''B'' ''T'')"
    by blast
  from a b c show ?thesis by blast
qed

text \<open>Against C7 as it is written: with no network the function returns the error of the
  request, and on a body that is not JSON the error of the decoder; neither is the
  not-found error.\<close>

theorem downloadLrc_not_found_counterexample:
  "snd (downloadLrc offline_world [] ''A'' ''T'') = Inl (UrlError ''dial tcp: no route to host'')
   \<and> snd (downloadLrc offline_world [] ''A'' ''T'') \<noteq> Inl (lyrics_not_found ''A'' ''T'')
   \<and> snd (downloadLrc garbled_world [] ''A'' ''T'')
       = Inl (JsonError ''unexpected end of JSON input'')
   \<and> snd (downloadLrc garbled_world [] ''A'' ''T'') \<noteq> Inl (lyrics_not_found ''A'' ''T'')"
  by (simp add: downloadLrc_def http_get_def offline_world_def garbled_world_def no_body_def
      lyrics_not_found_def)

subsection \<open>The cover-art lookup\<close>

lemma Replace1_first_occurrence:
  "\<forall>i<length pre. \<not> prefix old (drop i (pre @ old @ post)) \<Longrightarrow>
   Replace1 (pre @ old @ post) old new = pre @ new @ post"
proof (induction pre)
  case Nil
  show ?case
  proof (cases "old @ post")
    case Nil
    then show ?thesis by simp
  next
    case (Cons a list)
    have "prefix old (a # list)" by (metis Cons prefixI)
    moreover have "drop (length old) (a # list) = post"
      by (metis Cons append_eq_conv_conj)
    ultimately have "Replace1 (a # list) old new = new @ post" by simp
    with Cons show ?thesis by simp
  qed
next
  case (Cons p ps)
  from Cons.prems have here: "\<not> prefix old (p # ps @ old @ post)"
    by (auto dest: spec [of _ 0])
  have "\<forall>i<length ps. \<not> prefix old (drop i (ps @ old @ post))"
  proof (intro allI impI)
    fix i assume "i < length ps"
    with Cons.prems have "\<not> prefix old (drop (Suc i) ((p # ps) @ old @ post))"
      by (metis Suc_less_eq length_Cons)
    then show "\<not> prefix old (drop i (ps @ old @ post))" by simp
  qed
  with Cons.IH have "Replace1 (ps @ old @ post) old new = ps @ new @ post" by blast
  with here show ?case by simp
qed

text \<open>Every string that contains \<open>old\<close> splits at the first occurrence, so the lemma
  above covers every such string.\<close>

lemma first_occurrence_exists:
  assumes "s = p @ old @ q"
  shows "\<exists>pre post. s = pre @ old @ post \<and> (\<forall>i<length pre. \<not> prefix old (drop i s))"
proof -
  define k where "k = (LEAST i. i \<le> length s \<and> prefix old (drop i s))"
  from assms have "length p \<le> length s \<and> prefix old (drop (length p) s)" by simp
  then have k: "k \<le> length s \<and> prefix old (drop k s)"
    unfolding k_def by (rule LeastI)
  then obtain post where post: "drop k s = old @ post" by (auto elim: prefixE)
  have "s = take k s @ drop k s" by simp
  with post have s: "s = take k s @ old @ post" by simp
  have "\<not> prefix old (drop i s)" if "i < length (take k s)" for i
  proof
    assume "prefix old (drop i s)"
    with that have "i \<le> length s \<and> prefix old (drop i s)" by simp
    then have "k \<le> i" unfolding k_def by (rule Least_le)
    with that show False by simp
  qed
  with s show ?thesis by blast
qed

lemma requests_snoc: "requests (tr @ [HttpGet u]) = Suc (requests tr)"
  by (simp add: requests_def)

text \<open>
  C6. When the search answers with a non-empty result list and the artwork URL of its
  first result is \<open>pre @ 100x100 @ post\<close> with no occurrence of \<open>100x100\<close> starting
  inside \<open>pre\<close>, \<^verbatim>\<open>fetchAlbumArtURL\<close> issues exactly two requests, the second to
  \<open>pre @ 600x600 @ post\<close>; and when that request answers and its body is read, the
  function returns the bytes of the body with the content type the response declares.
\<close>

theorem fetchAlbumArtURL_high_resolution:
  assumes "http_Get w (requests tr) u = Inr resp"
    and "decode_itunes resp = Inr result"
    and "Results result = e # es"
    and "ArtworkURL100 e = pre @ ''100x100'' @ post"
    and "\<forall>i<length pre. \<not> prefix ''100x100'' (drop i (ArtworkURL100 e))"
  shows "fst (fetchAlbumArtURL w tr u) = tr @ [HttpGet u, HttpGet (pre @ ''600x600'' @ post)]
       \<and> (\<forall>resp2 b.
             http_Get w (Suc (requests tr)) (pre @ ''600x600'' @ post) = Inr resp2
             \<and> read_all resp2 = Inr b
             \<longrightarrow> snd (fetchAlbumArtURL w tr u) = Inr (b, content_type resp2))"
proof -
  from assms(4,5)
  have url: "Replace1 (ArtworkURL100 e) ''100x100'' ''600x600'' = pre @ ''600x600'' @ post"
    using Replace1_first_occurrence [of pre "''100x100''" post "''600x600''"] by simp
  from assms(1,2,3) url show ?thesis
    by (simp add: fetchAlbumArtURL_def http_get_def requests_snoc split: sum.splits)
qed

text \<open>The example URL holds the token twice; only the first occurrence changes.\<close>

theorem fetchAlbumArtURL_high_resolution_witness:
  "http_Get online_world (requests []) (coverArtUrl ''A'' ''T'') = Inr search_response
   \<and> decode_itunes search_response
       = Inr \<lparr>Results = [\<lparr>ArtworkURL100 = ''https://img.example/100x100/a100x100bb.jpg''\<rparr>]\<rparr>
   \<and> fetchAlbumArtURL online_world [] (coverArtUrl ''A'' ''T'')
       = ([HttpGet (coverArtUrl ''A'' ''T''),
           HttpGet ''https://img.example/600x600/a100x100bb.jpg''],
          Inr (''JFIF'', ''image/jpeg''))"
proof -
  let ?e = "\<lparr>ArtworkURL100 = ''https://img.example/100x100/a100x100bb.jpg''\<rparr>"
  have get: "http_Get online_world (requests []) (coverArtUrl ''A'' ''T'') = Inr search_response"
    by (rule example_urls)
  have dec: "decode_itunes search_response = Inr \<lparr>Results = [?e]\<rparr>"
    by (simp add: search_response_def)
  have res: "Results \<lparr>Results = [?e]\<rparr> = ?e # []" by simp
  have url: "ArtworkURL100 ?e = ''https://img.example/'' @ ''100x100'' @ ''/a100x100bb.jpg''"
    by simp
  have first: "\<forall>i<length ''https://img.example/''.
      \<not> prefix ''100x100'' (drop i (ArtworkURL100 ?e))"
    by (simp add: All_less_Suc)
  have img: "http_Get online_world (Suc (requests []))
      (''https://img.example/'' @ ''600x600'' @ ''/a100x100bb.jpg'') = Inr image_response"
    by (simp add: online_world_def offline_world_def)
  have body: "read_all image_response = Inr ''JFIF''"
    "content_type image_response = ''image/jpeg''"
    by (simp_all add: image_response_def no_body_def)
  from fetchAlbumArtURL_high_resolution [OF get dec res url first] img body
  have "fst (fetchAlbumArtURL online_world [] (coverArtUrl ''A'' ''T''))
          = [HttpGet (coverArtUrl ''A'' ''T''),
             HttpGet ''https://img.example/600x600/a100x100bb.jpg'']
      \<and> snd (fetchAlbumArtURL online_world [] (coverArtUrl ''A'' ''T''))
          = Inr (''JFIF'', ''image/jpeg'')"
    by simp
  then have "fetchAlbumArtURL online_world [] (coverArtUrl ''A'' ''T'')
       = ([HttpGet (coverArtUrl ''A'' ''T''),
           HttpGet ''https://img.example/600x600/a100x100bb.jpg''],
          Inr (''JFIF'', ''image/jpeg''))"
    by (simp add: prod_eq_iff)
  with get dec show ?thesis by blast
qed

subsection \<open>The tag operations\<close>

lemma GetFrames_DeleteFrames:
  "GetFrames (DeleteFrames i t) j = (if j = i then [] else GetFrames t j)"
  by (simp add: GetFrames_def DeleteFrames_def delete_conv')

lemma GetFrames_AddFrame:
  "GetFrames (AddFrame w i f t) j
     = (if j = i then sequence_AddFrame w f (GetFrames t i) else GetFrames t j)"
  by (simp add: GetFrames_def AddFrame_def update_conv')

lemma GetFrames_SetDefaultEncoding:
  "GetFrames (SetDefaultEncoding e t) j = GetFrames t j"
  by (simp add: GetFrames_def SetDefaultEncoding_def)

lemma GetFrames_rewritten_comment:
  "GetFrames (AddCommentFrame w cf (DeleteFrames (CommonID ''Comments'') t)) j
     = (if j = CommonID ''Comments'' then [CommentFrame cf] else GetFrames t j)"
  by (simp add: AddCommentFrame_def GetFrames_AddFrame GetFrames_DeleteFrames)

lemma GetFrames_set_picture:
  "GetFrames (set_picture w pic t) j
     = (if j = CommonID ''Attached picture'' then [PictureFrame pic] else GetFrames t j)"
  by (simp add: set_picture_def AddAttachedPicture_def GetFrames_AddFrame GetFrames_DeleteFrames)

lemma GetFrames_set_lyrics:
  "GetFrames (set_lyrics w uslt t) j
     = (if j = CommonID ''Unsynchronised lyrics/text transcription''
        then [UnsynchronisedLyricsFrame uslt] else GetFrames t j)"
  by (simp add: set_lyrics_def AddUnsynchronisedLyricsFrame_def GetFrames_AddFrame
      GetFrames_DeleteFrames)

lemma normalize_comments_none:
  "GetFrames t (CommonID ''Comments'') = [] \<Longrightarrow> normalize_comments w fl t = Some t"
  by (simp add: normalize_comments_def)

lemma normalize_comments_first:
  "GetFrames t (CommonID ''Comments'') = CommentFrame c # rest \<Longrightarrow>
   normalize_comments w fl t
     = Some (AddCommentFrame w
               \<lparr>cf_Encoding = EncodingISO, cf_Language = embedLang fl,
                cf_Description = cf_Description c, cf_Text = cf_Text c\<rparr>
               (DeleteFrames (CommonID ''Comments'') t))"
  by (simp add: normalize_comments_def)

lemma normalize_comments_other:
  assumes "normalize_comments w fl t = Some t'" and "j \<noteq> CommonID ''Comments''"
  shows "GetFrames t' j = GetFrames t j"
proof (cases "GetFrames t (CommonID ''Comments'')")
  case Nil
  with assms show ?thesis by (simp add: normalize_comments_none)
next
  case (Cons f fs)
  with assms(1) obtain c where "f = CommentFrame c"
    by (cases f) (simp_all add: normalize_comments_def)
  with Cons assms show ?thesis
    by (auto simp: normalize_comments_first GetFrames_rewritten_comment)
qed

lemma normalize_comments_texts:
  assumes "normalize_comments w fl t = Some t'"
  shows "Artist t' = Artist t" and "Title t' = Title t"
  using normalize_comments_other [OF assms]
  by (simp_all add: Artist_def Title_def GetTextFrame_def CommonID_def)

lemma image_step_comments:
  "snd (image_step w fl tr t) = Inr t' \<Longrightarrow>
   GetFrames t' (CommonID ''Comments'') = GetFrames t (CommonID ''Comments'')"
  by (auto simp: image_step_def Let_def split_beta GetFrames_set_picture CommonID_def
      split: sum.splits option.splits if_splits)

lemma lyrics_step_comments:
  "snd (lyrics_step w fl tr t) = Inr t' \<Longrightarrow>
   GetFrames t' (CommonID ''Comments'') = GetFrames t (CommonID ''Comments'')"
  by (auto simp: lyrics_step_def Let_def split_beta GetFrames_set_lyrics CommonID_def
      split: sum.splits option.splits if_splits)

subsection \<open>The events of each step\<close>

lemma fetchAlbumArtURL_saves:
  "filter is_Save (fst (fetchAlbumArtURL w tr u)) = filter is_Save tr"
  by (simp add: fetchAlbumArtURL_def http_get_def split: sum.split)

lemma fetchAlbumArtURL_request_failed:
  "http_Get w (requests tr) u = Inl e \<Longrightarrow>
   fetchAlbumArtURL w tr u = (tr @ [HttpGet u], Inl e)"
  by (simp add: fetchAlbumArtURL_def http_get_def)

lemma downloadLrc_same_requests:
  "requests tr = requests tr' \<Longrightarrow>
   snd (downloadLrc w tr a ti) = snd (downloadLrc w tr' a ti)"
  by (simp add: downloadLrc_def http_get_def split: sum.split)

lemma image_step_saves:
  "filter is_Save (fst (image_step w fl tr t)) = filter is_Save tr"
  by (simp add: image_step_def Let_def split_beta fetchAlbumArtURL_saves
      split: sum.split option.split)

lemma lyrics_step_saves:
  "filter is_Save (fst (lyrics_step w fl tr t)) = filter is_Save tr"
  by (simp add: lyrics_step_def Let_def split_beta downloadLrc_trace
      split: sum.split option.split)

lemma image_step_stops: "snd (image_step w fl tr t) \<noteq> Inl Returned"
  by (simp add: image_step_def Let_def split_beta split: sum.split option.split)

lemma lyrics_step_stops: "snd (lyrics_step w fl tr t) \<noteq> Inl Returned"
  by (simp add: lyrics_step_def Let_def split_beta split: sum.split option.split)

lemma print_frames_saves: "filter is_Save (print_frames w t) = []"
  by (simp add: print_frames_def filter_concat comp_def)

lemma print_frames_requests: "filter is_HttpGet (print_frames w t) = []"
  by (simp add: print_frames_def filter_concat comp_def)

lemma save_step_dry: "dryRun fl \<Longrightarrow> save_step w fl tr t = (tr, Returned)"
  by (simp add: save_step_def)

lemma save_step_saves:
  "\<not> dryRun fl \<Longrightarrow> filter is_Save (fst (save_step w fl tr t)) = filter is_Save tr @ [Save t]"
  by (simp add: save_step_def split: option.split)

lemma image_step_dry_auto:
  "dryRun fl \<Longrightarrow> embedImage fl = ''auto'' \<Longrightarrow> Artist t = Some a \<Longrightarrow> Title t = Some ti \<Longrightarrow>
   image_step w fl tr t
     = (tr @ [Stdout ''\<newline>'', Stdout (''Covert art: '' @ coverArtUrl a ti @ ''\<newline>'')], Inr t)"
  by (simp add: image_step_def)

lemma image_step_offline:
  "\<not> dryRun fl \<Longrightarrow> embedImage fl = ''auto'' \<Longrightarrow> Artist t = Some a \<Longrightarrow> Title t = Some ti \<Longrightarrow>
   http_Get w (requests tr) (coverArtUrl a ti) = Inl e \<Longrightarrow>
   image_step w fl tr t
     = (tr @ [HttpGet (coverArtUrl a ti)], Inl (Fatal ''Error fetch album art image: '' e))"
  by (simp add: image_step_def fetchAlbumArtURL_request_failed)

lemma lyrics_step_auto_failed:
  "embedLyrics fl \<noteq> '''' \<Longrightarrow> embedImage fl = ''auto'' \<Longrightarrow>
   Artist t = Some a \<Longrightarrow> Title t = Some ti \<Longrightarrow>
   snd (downloadLrc w tr a ti) = Inl e \<Longrightarrow>
   lyrics_step w fl tr t = (tr @ [HttpGet (lrclib_url a ti)], Inl (Fatal '''' e))"
  using downloadLrc_trace [of w tr a ti]
  by (simp add: lyrics_step_def split_beta)

lemma lyrics_step_skipped:
  "embedLyrics fl = '''' \<Longrightarrow> lyrics_step w fl tr t = (tr, Inr t)"
  by (simp add: lyrics_step_def)

subsection \<open>The steps composed\<close>

lemma edit_tag_image_stops:
  "normalize_comments w fl (SetDefaultEncoding EncodingUTF16 t0) = Some t2 \<Longrightarrow>
   image_step w fl (if dryRun fl then tr @ print_frames w t0 else tr) t2 = (tr2, Inl out) \<Longrightarrow>
   edit_tag w fl tr t0 = (tr2, out)"
  by (simp add: edit_tag_def Let_def)

lemma edit_tag_lyrics_stops:
  "normalize_comments w fl (SetDefaultEncoding EncodingUTF16 t0) = Some t2 \<Longrightarrow>
   image_step w fl (if dryRun fl then tr @ print_frames w t0 else tr) t2 = (tr2, Inr t3) \<Longrightarrow>
   lyrics_step w fl tr2 t3 = (tr3, Inl out) \<Longrightarrow>
   edit_tag w fl tr t0 = (tr3, out)"
  by (simp add: edit_tag_def Let_def)

lemma edit_tag_saves:
  "normalize_comments w fl (SetDefaultEncoding EncodingUTF16 t0) = Some t2 \<Longrightarrow>
   image_step w fl (if dryRun fl then tr @ print_frames w t0 else tr) t2 = (tr2, Inr t3) \<Longrightarrow>
   lyrics_step w fl tr2 t3 = (tr3, Inr t4) \<Longrightarrow>
   edit_tag w fl tr t0 = save_step w fl tr3 t4"
  by (simp add: edit_tag_def Let_def)

lemma edit_tag_saves_dry:
  "dryRun fl \<Longrightarrow> filter is_Save (fst (edit_tag w fl tr t0)) = filter is_Save tr"
  by (simp add: edit_tag_def Let_def split_beta image_step_saves lyrics_step_saves
      print_frames_saves save_step_dry split: sum.split option.split)

lemma edit_tag_saved_tags:
  assumes "\<not> dryRun fl"
  shows "filter is_Save (fst (edit_tag w fl tr t0)) = filter is_Save tr
       \<and> snd (edit_tag w fl tr t0) \<noteq> Returned
     \<or> (\<exists>t2 t3 t4.
           normalize_comments w fl (SetDefaultEncoding EncodingUTF16 t0) = Some t2
           \<and> snd (image_step w fl tr t2) = Inr t3
           \<and> snd (lyrics_step w fl (fst (image_step w fl tr t2)) t3) = Inr t4
           \<and> filter is_Save (fst (edit_tag w fl tr t0)) = filter is_Save tr @ [Save t4])"
  using assms
  by (auto simp: edit_tag_def Let_def split_beta image_step_saves lyrics_step_saves
      save_step_saves image_step_stops lyrics_step_stops split: sum.splits option.splits)
lemma main_opened:
  "mp3File fl \<noteq> '''' \<Longrightarrow> id3v2_Open w (mp3File fl) = Inr t0 \<Longrightarrow>
   main w fl = edit_tag w fl [Open (mp3File fl)] t0"
  by (simp add: main_def)

lemma normalize_comments_typed:
  assumes "GetFrames t0 (CommonID ''Comments'') = []
      \<or> (\<exists>c rest. GetFrames t0 (CommonID ''Comments'') = CommentFrame c # rest)"
  shows "\<exists>t2. normalize_comments w fl (SetDefaultEncoding EncodingUTF16 t0) = Some t2"
  using assms
  by (auto simp: normalize_comments_none normalize_comments_first GetFrames_SetDefaultEncoding)

lemma texts_SetDefaultEncoding:
  "Artist (SetDefaultEncoding e t) = Artist t" "Title (SetDefaultEncoding e t) = Title t"
  by (simp_all add: Artist_def Title_def GetTextFrame_def GetFrames_SetDefaultEncoding)

lemma example_tag_facts:
  "GetFrames example_tag (CommonID ''Comments'')
     = CommentFrame first_comment # [CommentFrame second_comment]"
  "Artist example_tag = Some ''A''"
  "Title example_tag = Some ''T''"
  by (simp_all add: example_tag_def GetFrames_def CommonID_def Artist_def Title_def
      GetTextFrame_def)

lemma example_opened:
  "id3v2_Open offline_world f = Inr example_tag"
  "id3v2_Open online_world f = Inr example_tag"
  by (simp_all add: offline_world_def online_world_def)

lemma main_saved_tag:
  assumes arg: "mp3File fl \<noteq> ''''"
    and opened: "id3v2_Open w (mp3File fl) = Inr t0"
    and saved: "Save t' \<in> set (fst (main w fl))"
  shows "\<exists>t2. normalize_comments w fl (SetDefaultEncoding EncodingUTF16 t0) = Some t2
           \<and> GetFrames t' (CommonID ''Comments'') = GetFrames t2 (CommonID ''Comments'')"
proof -
  from arg opened have run: "main w fl = edit_tag w fl [Open (mp3File fl)] t0"
    by (rule main_opened)
  from saved have mem: "Save t' \<in> set (filter is_Save (fst (main w fl)))" by simp
  show ?thesis
  proof (cases "dryRun fl")
    case True
    then have "filter is_Save (fst (main w fl)) = []"
      by (simp add: run edit_tag_saves_dry)
    with mem show ?thesis by simp
  next
    case False
    from mem have "filter is_Save (fst (edit_tag w fl [Open (mp3File fl)] t0)) \<noteq> []"
      unfolding run by (metis empty_iff empty_set)
    with edit_tag_saved_tags [OF False, of w "[Open (mp3File fl)]" t0]
    obtain t2 t3 t4
      where norm: "normalize_comments w fl (SetDefaultEncoding EncodingUTF16 t0) = Some t2"
        and img: "snd (image_step w fl [Open (mp3File fl)] t2) = Inr t3"
        and lyr: "snd (lyrics_step w fl (fst (image_step w fl [Open (mp3File fl)] t2)) t3) = Inr t4"
        and tr: "filter is_Save (fst (main w fl)) = [Save t4]"
      by (auto simp: run)
    from mem tr have "t' = t4" by simp
    with img lyr have "GetFrames t' (CommonID ''Comments'') = GetFrames t2 (CommonID ''Comments'')"
      by (simp add: image_step_comments lyrics_step_comments)
    with norm show ?thesis by blast
  qed
qed

text \<open>Which flag sends the lyrics step to the network: the image flag in
  \<^verbatim>\<open>main.go\<close>, the lyrics flag in the revised copy.\<close>

lemma lyrics_step_local:
  "embedLyrics fl \<noteq> '''' \<Longrightarrow> embedImage fl \<noteq> ''auto'' \<Longrightarrow>
   fst (lyrics_step w fl tr t)
     = tr @ (if dryRun fl
             then [Stdout ''\<newline>'', Stdout (''Lyrics text: '' @ embedLyrics fl @ ''\<newline>'')]
             else [ReadFile (embedLyrics fl)])"
  by (simp add: lyrics_step_def split: sum.split)

lemma downloadLrc_part_000_trace:
  "fst (downloadLrc_part_000 w tr artist title) = tr @ [HttpGet (lrclib_url artist title)]"
  by (simp add: downloadLrc_part_000_def http_get_def split: sum.splits)

lemma lyrics_step_part_000_auto:
  "embedLyrics fl = ''auto'' \<Longrightarrow> Artist t = Some a \<Longrightarrow> Title t = Some ti \<Longrightarrow>
   filter is_HttpGet (fst (lyrics_step_part_000 w fl tr t))
     = filter is_HttpGet tr @ [HttpGet (lrclib_url a ti)]"
  by (simp add: lyrics_step_part_000_def split_beta downloadLrc_part_000_trace split: sum.split)

lemma lyrics_step_part_000_local:
  "embedLyrics fl \<noteq> '''' \<Longrightarrow> embedLyrics fl \<noteq> ''auto'' \<Longrightarrow>
   fst (lyrics_step_part_000 w fl tr t)
     = tr @ (if dryRun fl
             then [Stdout ''\<newline>'',
                   Stdout (''Lyrics text from file: '' @ embedLyrics fl @ ''\<newline>'')]
             else [ReadFile (embedLyrics fl)])"
  by (simp add: lyrics_step_part_000_def split: sum.split)

subsection \<open>The comment frames\<close>

text \<open>
  C3, as the code has it. For a tag whose first comment frame is \<open>c\<close>, the normalization
  leaves exactly one comment frame: its description and its text are those of \<open>c\<close>, its
  encoding is ISO-8859-1, and its language is the value of the language flag, whatever
  the language of \<open>c\<close> was. The frames under every other identifier stay as they were.
\<close>

theorem normalize_comments_fields:
  assumes "GetFrames t (CommonID ''Comments'') = CommentFrame c # rest"
  shows "map_option (\<lambda>t'. GetFrames t' (CommonID ''Comments'')) (normalize_comments w fl t)
           = Some [CommentFrame
                     \<lparr>cf_Encoding = EncodingISO, cf_Language = embedLang fl,
                      cf_Description = cf_Description c, cf_Text = cf_Text c\<rparr>]
       \<and> (\<forall>j. j \<noteq> CommonID ''Comments'' \<longrightarrow>
             map_option (\<lambda>t'. GetFrames t' j) (normalize_comments w fl t)
               = Some (GetFrames t j))"
  using assms by (simp add: normalize_comments_first GetFrames_rewritten_comment)

theorem normalize_comments_fields_witness:
  "GetFrames example_tag (CommonID ''Comments'')
     = CommentFrame first_comment # [CommentFrame second_comment]
   \<and> map_option (\<lambda>t'. GetFrames t' (CommonID ''Comments''))
       (normalize_comments offline_world (flags_of '''' '''' False ''song.mp3'') example_tag)
       = Some [CommentFrame
                 \<lparr>cf_Encoding = EncodingISO, cf_Language = ''jpn'',
                  cf_Description = ''note'', cf_Text = ''hello''\<rparr>]
   \<and> map_option (\<lambda>t'. GetFrames t' ''TIT2'')
       (normalize_comments offline_world (flags_of '''' '''' False ''song.mp3'') example_tag)
       = Some [TextFrame \<lparr>tf_Encoding = EncodingUTF8, tf_Text = ''T''\<rparr>]"
proof -
  let ?fl = "flags_of '''' '''' False ''song.mp3''"
  have other: "''TIT2'' \<noteq> CommonID ''Comments''" by (simp add: CommonID_def)
  have title: "GetFrames example_tag ''TIT2''
      = [TextFrame \<lparr>tf_Encoding = EncodingUTF8, tf_Text = ''T''\<rparr>]"
    by (simp add: example_tag_def GetFrames_def)
  have eqs: "embedLang ?fl = ''jpn''" "cf_Description first_comment = ''note''"
    "cf_Text first_comment = ''hello''"
    by (simp_all add: flags_of_def first_comment_def)
  note fields = normalize_comments_fields [OF example_tag_facts(1), of offline_world ?fl]
  from fields have "map_option (\<lambda>t'. GetFrames t' (CommonID ''Comments''))
          (normalize_comments offline_world ?fl example_tag)
          = Some [CommentFrame
                    \<lparr>cf_Encoding = EncodingISO, cf_Language = embedLang ?fl,
                     cf_Description = cf_Description first_comment,
                     cf_Text = cf_Text first_comment\<rparr>]"
    by (rule conjunct1)
  then have comment: "map_option (\<lambda>t'. GetFrames t' (CommonID ''Comments''))
          (normalize_comments offline_world ?fl example_tag)
          = Some [CommentFrame
                    \<lparr>cf_Encoding = EncodingISO, cf_Language = ''jpn'',
                     cf_Description = ''note'', cf_Text = ''hello''\<rparr>]"
    by (simp only: eqs)
  from fields other
  have "map_option (\<lambda>t'. GetFrames t' ''TIT2'') (normalize_comments offline_world ?fl example_tag)
          = Some (GetFrames example_tag ''TIT2'')"
    by blast
  then have rest: "map_option (\<lambda>t'. GetFrames t' ''TIT2'')
          (normalize_comments offline_world ?fl example_tag)
          = Some [TextFrame \<lparr>tf_Encoding = EncodingUTF8, tf_Text = ''T''\<rparr>]"
    by (simp only: title)
  from example_tag_facts(1) comment rest show ?thesis by blast
qed

text \<open>Against C3 as it is written: the first comment of the example tag is in English,
  and with the default language flag the rewritten frame is marked Japanese.\<close>

theorem normalize_comments_language_counterexample:
  "GetFrames example_tag (CommonID ''Comments'')
     = [CommentFrame first_comment, CommentFrame second_comment]
   \<and> cf_Language first_comment = ''eng''
   \<and> map_option (\<lambda>t'. GetFrames t' (CommonID ''Comments''))
       (normalize_comments offline_world (flags_of '''' '''' False ''song.mp3'') example_tag)
       = Some [CommentFrame
                 \<lparr>cf_Encoding = EncodingISO, cf_Language = ''jpn'',
                  cf_Description = ''note'', cf_Text = ''hello''\<rparr>]"
  by (simp add: normalize_comments_def GetFrames_def DeleteFrames_def AddCommentFrame_def
      AddFrame_def CommonID_def example_tag_def first_comment_def flags_of_def Let_def)

text \<open>
  C9. For a tag with more than one comment frame, the first of them \<open>c\<close>, the
  normalization leaves one comment frame; and whatever tag a run on that file saves has,
  under the comment identifier, the frame built from \<open>c\<close> and nothing else: the later
  comment frames are gone from the file.
\<close>

theorem later_comments_discarded:
  assumes first: "GetFrames t0 (CommonID ''Comments'') = CommentFrame c # rest"
    and more: "rest \<noteq> []"
  shows "map_option (\<lambda>t'. GetFrames t' (CommonID ''Comments'')) (normalize_comments w fl t0)
           = Some [CommentFrame
                     \<lparr>cf_Encoding = EncodingISO, cf_Language = embedLang fl,
                      cf_Description = cf_Description c, cf_Text = cf_Text c\<rparr>]
       \<and> length (GetFrames t0 (CommonID ''Comments'')) > 1
       \<and> (mp3File fl \<noteq> '''' \<and> id3v2_Open w (mp3File fl) = Inr t0 \<longrightarrow>
            (\<forall>t'. Save t' \<in> set (fst (main w fl)) \<longrightarrow>
               GetFrames t' (CommonID ''Comments'')
                 = [CommentFrame
                      \<lparr>cf_Encoding = EncodingISO, cf_Language = embedLang fl,
                       cf_Description = cf_Description c, cf_Text = cf_Text c\<rparr>]))"
proof -
  let ?new = "\<lparr>cf_Encoding = EncodingISO, cf_Language = embedLang fl,
               cf_Description = cf_Description c, cf_Text = cf_Text c\<rparr>"
  from first
  have step: "map_option (\<lambda>t'. GetFrames t' (CommonID ''Comments'')) (normalize_comments w fl t0)
      = Some [CommentFrame ?new]"
    by (simp add: normalize_comments_first GetFrames_rewritten_comment)
  from first more have many: "length (GetFrames t0 (CommonID ''Comments'')) > 1"
    by (cases rest) simp_all
  have "GetFrames t' (CommonID ''Comments'') = [CommentFrame ?new]"
    if "mp3File fl \<noteq> ''''" and "id3v2_Open w (mp3File fl) = Inr t0"
      and "Save t' \<in> set (fst (main w fl))" for t'
  proof -
    from main_saved_tag [OF that] obtain t2
      where norm: "normalize_comments w fl (SetDefaultEncoding EncodingUTF16 t0) = Some t2"
        and same: "GetFrames t' (CommonID ''Comments'') = GetFrames t2 (CommonID ''Comments'')"
      by blast
    from first have "GetFrames (SetDefaultEncoding EncodingUTF16 t0) (CommonID ''Comments'')
        = CommentFrame c # rest"
      by (simp add: GetFrames_SetDefaultEncoding)
    with norm have "GetFrames t2 (CommonID ''Comments'') = [CommentFrame ?new]"
      by (auto simp: normalize_comments_first GetFrames_rewritten_comment)
    with same show ?thesis by simp
  qed
  with step many show ?thesis by blast
qed

text \<open>The example tag has two comment frames; the run that embeds a fetched cover and
  fetched lyrics saves a tag with the rewritten first one only.\<close>

theorem later_comments_discarded_witness:
  "GetFrames example_tag (CommonID ''Comments'')
     = CommentFrame first_comment # [CommentFrame second_comment]
   \<and> map_option (\<lambda>t'. GetFrames t' (CommonID ''Comments''))
       (normalize_comments online_world (flags_of ''auto'' ''auto'' False ''song.mp3'') example_tag)
       = Some [CommentFrame
                 \<lparr>cf_Encoding = EncodingISO, cf_Language = ''jpn'',
                  cf_Description = ''note'', cf_Text = ''hello''\<rparr>]
   \<and> (\<exists>t'. Save t' \<in> set (fst (main online_world (flags_of ''auto'' ''auto'' False ''song.mp3'')))
         \<and> GetFrames t' (CommonID ''Comments'')
             = [CommentFrame
                  \<lparr>cf_Encoding = EncodingISO, cf_Language = ''jpn'',
                   cf_Description = ''note'', cf_Text = ''hello''\<rparr>])"
proof -
  let ?fl = "flags_of ''auto'' ''auto'' False ''song.mp3''"
  have more: "[CommentFrame second_comment] \<noteq> []" by simp
  have fl: "mp3File ?fl \<noteq> ''''" "embedLang ?fl = ''jpn''"
    by (simp_all add: flags_of_def)
  have opened: "id3v2_Open online_world (mp3File ?fl) = Inr example_tag"
    by (rule example_opened)
  have "list_ex is_Save (fst (main online_world ?fl))"
    by code_simp
  then obtain e where e: "e \<in> set (fst (main online_world ?fl))" "is_Save e"
    unfolding list_ex_iff by blast
  from e(2) obtain t' where "e = Save t'"
    by (cases e) simp_all
  with e(1) have saved: "Save t' \<in> set (fst (main online_world ?fl))"
    by simp
  have eqs: "cf_Description first_comment = ''note''" "cf_Text first_comment = ''hello''"
    by (simp_all add: first_comment_def)
  note inst = later_comments_discarded [OF example_tag_facts(1) more, of online_world ?fl]
  from inst have "map_option (\<lambda>t'. GetFrames t' (CommonID ''Comments''))
          (normalize_comments online_world ?fl example_tag)
          = Some [CommentFrame
                    \<lparr>cf_Encoding = EncodingISO, cf_Language = embedLang ?fl,
                     cf_Description = cf_Description first_comment,
                     cf_Text = cf_Text first_comment\<rparr>]"
    by (rule conjunct1)
  then have step: "map_option (\<lambda>t'. GetFrames t' (CommonID ''Comments''))
          (normalize_comments online_world ?fl example_tag)
          = Some [CommentFrame
                    \<lparr>cf_Encoding = EncodingISO, cf_Language = ''jpn'',
                     cf_Description = ''note'', cf_Text = ''hello''\<rparr>]"
    by (simp only: eqs fl(2))
  from inst fl(1) opened saved
  have "GetFrames t' (CommonID ''Comments'')
          = [CommentFrame
               \<lparr>cf_Encoding = EncodingISO, cf_Language = embedLang ?fl,
                cf_Description = cf_Description first_comment,
                cf_Text = cf_Text first_comment\<rparr>]"
    by blast
  then have "GetFrames t' (CommonID ''Comments'')
          = [CommentFrame
               \<lparr>cf_Encoding = EncodingISO, cf_Language = ''jpn'',
                cf_Description = ''note'', cf_Text = ''hello''\<rparr>]"
    by (simp only: eqs fl(2))
  with saved example_tag_facts(1) step show ?thesis by blast
qed

subsection \<open>Runs of \<^verbatim>\<open>main\<close>\<close>

text \<open>
  C8. Without a positional argument the run prints the usage and exits with status 1;
  the usage is its only event, so it opens, reads and saves no file and sends no request.
\<close>

theorem no_file_argument:
  assumes "mp3File fl = ''''"
  shows "main w fl = ([Usage], Exit 1)
       \<and> filter is_file_io (fst (main w fl)) = []
       \<and> filter is_HttpGet (fst (main w fl)) = []"
  using assms by (simp add: main_def)

theorem no_file_argument_witness:
  "mp3File (flags_of ''auto'' ''auto'' False '''') = ''''
   \<and> main online_world (flags_of ''auto'' ''auto'' False '''') = ([Usage], Exit 1)
   \<and> filter is_file_io (fst (main online_world (flags_of ''auto'' ''auto'' False ''''))) = []
   \<and> filter is_HttpGet (fst (main online_world (flags_of ''auto'' ''auto'' False ''''))) = []"
proof -
  have arg: "mp3File (flags_of ''auto'' ''auto'' False '''') = ''''"
    by (simp add: flags_of_def)
  from no_file_argument [OF arg, of online_world] arg show ?thesis by blast
qed

text \<open>
  C4. A dry run never calls save, however it ends; and a run that is not a dry run and
  returns normally has called save exactly once.
\<close>

theorem preview_never_saves:
  "(dryRun fl \<longrightarrow> filter is_Save (fst (main w fl)) = [])
   \<and> (\<not> dryRun fl \<and> snd (main w fl) = Returned
        \<longrightarrow> length (filter is_Save (fst (main w fl))) = 1)"
proof (cases "mp3File fl = ''''")
  case True
  then show ?thesis by (simp add: main_def)
next
  case False
  show ?thesis
  proof (cases "id3v2_Open w (mp3File fl)")
    case (Inl err)
    with False show ?thesis by (simp add: main_def)
  next
    case (Inr t0)
    with False have run: "main w fl = edit_tag w fl [Open (mp3File fl)] t0"
      by (rule main_opened)
    have dry: "filter is_Save (fst (main w fl)) = []" if "dryRun fl"
      using that by (simp add: run edit_tag_saves_dry)
    have wet: "length (filter is_Save (fst (main w fl))) = 1"
      if "\<not> dryRun fl" and "snd (main w fl) = Returned"
      using edit_tag_saved_tags [OF that(1), of w "[Open (mp3File fl)]" t0] that(2)
      by (auto simp: run)
    from dry wet show ?thesis by blast
  qed
qed

text \<open>A dry run with a cover file and fetched lyrics, and a run that embeds a fetched
  cover and a lyrics file.\<close>

theorem preview_never_saves_witness:
  "dryRun (flags_of ''cover.jpg'' ''auto'' True ''song.mp3'')
   \<and> filter is_Save (fst (main online_world (flags_of ''cover.jpg'' ''auto'' True ''song.mp3'')))
       = []
   \<and> \<not> dryRun (flags_of ''auto'' ''lyrics.lrc'' False ''song.mp3'')
   \<and> snd (main online_world (flags_of ''auto'' ''lyrics.lrc'' False ''song.mp3'')) = Returned
   \<and> length (filter is_Save
        (fst (main online_world (flags_of ''auto'' ''lyrics.lrc'' False ''song.mp3'')))) = 1"
proof -
  let ?dry = "flags_of ''cover.jpg'' ''auto'' True ''song.mp3''"
  let ?wet = "flags_of ''auto'' ''lyrics.lrc'' False ''song.mp3''"
  have dry: "dryRun ?dry"
    by (simp add: flags_of_def)
  have wet: "\<not> dryRun ?wet"
    by (simp add: flags_of_def)
  have ok: "snd (main online_world ?wet) = Returned"
    by code_simp
  from preview_never_saves [of ?dry online_world] dry
  have a: "filter is_Save (fst (main online_world ?dry)) = []"
    by blast
  from preview_never_saves [of ?wet online_world] wet ok
  have b: "length (filter is_Save (fst (main online_world ?wet))) = 1"
    by blast
  from dry a wet ok b show ?thesis by blast
qed

text \<open>
  C2, as the code has it. Take a run that gets as far as the embedding steps: the file
  argument is there, the tag opens, its first comment frame (if any) is a comment frame
  and its artist and title are text. Let every network request fail. If the image flag
  is \<open>auto\<close> and the run is not a dry run, or if the image flag and the lyrics flag are
  both \<open>auto\<close>, the run ends in \<^verbatim>\<open>log.Fatal\<close> with the error of a request, and save
  is never called.
\<close>

theorem offline_auto_is_fatal:
  assumes arg: "mp3File fl \<noteq> ''''"
    and opened: "id3v2_Open w (mp3File fl) = Inr t0"
    and comments: "GetFrames t0 (CommonID ''Comments'') = []
      \<or> (\<exists>c rest. GetFrames t0 (CommonID ''Comments'') = CommentFrame c # rest)"
    and artist: "Artist t0 = Some a"
    and title: "Title t0 = Some ti"
    and offline: "\<forall>n u. \<exists>e. http_Get w n u = Inl e"
    and auto: "embedImage fl = ''auto''"
    and mode: "\<not> dryRun fl \<or> embedLyrics fl = ''auto''"
  shows "(\<exists>p e n u. snd (main w fl) = Fatal p e \<and> http_Get w n u = Inl e)
       \<and> filter is_Save (fst (main w fl)) = []"
proof -
  from arg opened have run: "main w fl = edit_tag w fl [Open (mp3File fl)] t0"
    by (rule main_opened)
  from comments obtain t2
    where norm: "normalize_comments w fl (SetDefaultEncoding EncodingUTF16 t0) = Some t2"
    using normalize_comments_typed by blast
  from norm artist title have a2: "Artist t2 = Some a" and ti2: "Title t2 = Some ti"
    by (simp_all add: normalize_comments_texts texts_SetDefaultEncoding)
  let ?tr1 = "if dryRun fl then [Open (mp3File fl)] @ print_frames w t0 else [Open (mp3File fl)]"
  show ?thesis
  proof (cases "dryRun fl")
    case False
    from offline obtain e where e: "http_Get w (requests ?tr1) (coverArtUrl a ti) = Inl e"
      by blast
    from False auto a2 ti2 e
    have "image_step w fl ?tr1 t2
        = (?tr1 @ [HttpGet (coverArtUrl a ti)], Inl (Fatal ''Error fetch album art image: '' e))"
      by (rule image_step_offline)
    with norm have "edit_tag w fl [Open (mp3File fl)] t0
        = (?tr1 @ [HttpGet (coverArtUrl a ti)], Fatal ''Error fetch album art image: '' e)"
      by (rule edit_tag_image_stops)
    with run e False show ?thesis by auto
  next
    case True
    with mode have lyr: "embedLyrics fl \<noteq> ''''" by auto
    let ?tr2 = "?tr1 @ [Stdout ''\<newline>'',
                        Stdout (''Covert art: '' @ coverArtUrl a ti @ ''\<newline>'')]"
    from True auto a2 ti2 have img: "image_step w fl ?tr1 t2 = (?tr2, Inr t2)"
      by (rule image_step_dry_auto)
    from offline obtain e where e: "http_Get w (requests ?tr2) (lrclib_url a ti) = Inl e"
      by blast
    then have "snd (downloadLrc w ?tr2 a ti) = Inl e"
      by (rule downloadLrc_request_failed)
    with lyr auto a2 ti2
    have "lyrics_step w fl ?tr2 t2 = (?tr2 @ [HttpGet (lrclib_url a ti)], Inl (Fatal '''' e))"
      by (rule lyrics_step_auto_failed)
    with norm img have "edit_tag w fl [Open (mp3File fl)] t0
        = (?tr2 @ [HttpGet (lrclib_url a ti)], Fatal '''' e)"
      by (rule edit_tag_lyrics_stops)
    with run e True show ?thesis by (auto simp: print_frames_saves)
  qed
qed

text \<open>With no network, the run that fetches the cover stops at the search request; the
  dry run with both flags \<open>auto\<close> stops at the lyrics request.\<close>

theorem offline_auto_is_fatal_witness:
  "\<not> dryRun (flags_of ''auto'' '''' False ''song.mp3'')
   \<and> main offline_world (flags_of ''auto'' '''' False ''song.mp3'')
       = ([Open ''song.mp3'', HttpGet (coverArtUrl ''A'' ''T'')],
          Fatal ''Error fetch album art image: '' (UrlError ''dial tcp: no route to host''))
   \<and> (\<exists>p e n u. snd (main offline_world (flags_of ''auto'' '''' False ''song.mp3'')) = Fatal p e
         \<and> http_Get offline_world n u = Inl e)
   \<and> filter is_Save (fst (main offline_world (flags_of ''auto'' '''' False ''song.mp3''))) = []
   \<and> embedLyrics (flags_of ''auto'' ''auto'' True ''song.mp3'') = ''auto''
   \<and> (\<exists>p e n u. snd (main offline_world (flags_of ''auto'' ''auto'' True ''song.mp3'')) = Fatal p e
         \<and> http_Get offline_world n u = Inl e)
   \<and> filter is_Save (fst (main offline_world (flags_of ''auto'' ''auto'' True ''song.mp3''))) = []"
proof -
  let ?wet = "flags_of ''auto'' '''' False ''song.mp3''"
  let ?dry = "flags_of ''auto'' ''auto'' True ''song.mp3''"
  have opened: "id3v2_Open offline_world f = Inr example_tag" for f
    by (rule example_opened)
  have offline: "\<forall>n u. \<exists>e. http_Get offline_world n u = Inl e"
    by (simp add: offline_world_def)
  have comments: "GetFrames example_tag (CommonID ''Comments'') = []
      \<or> (\<exists>c rest. GetFrames example_tag (CommonID ''Comments'') = CommentFrame c # rest)"
    by (simp add: example_tag_facts)
  have wet: "mp3File ?wet \<noteq> ''''" "embedImage ?wet = ''auto''" "\<not> dryRun ?wet"
    by (simp_all add: flags_of_def)
  have dry: "mp3File ?dry \<noteq> ''''" "embedImage ?dry = ''auto''" "embedLyrics ?dry = ''auto''"
    by (simp_all add: flags_of_def)
  have run: "main offline_world ?wet
       = ([Open ''song.mp3'', HttpGet (coverArtUrl ''A'' ''T'')],
          Fatal ''Error fetch album art image: '' (UrlError ''dial tcp: no route to host''))"
    by code_simp
  from offline_auto_is_fatal
    [OF wet(1) opened comments example_tag_facts(2,3) offline wet(2)] wet(3)
  have a: "(\<exists>p e n u. snd (main offline_world ?wet) = Fatal p e
             \<and> http_Get offline_world n u = Inl e)
      \<and> filter is_Save (fst (main offline_world ?wet)) = []"
    by blast
  from offline_auto_is_fatal
    [OF dry(1) opened comments example_tag_facts(2,3) offline dry(2)] dry(3)
  have b: "(\<exists>p e n u. snd (main offline_world ?dry) = Fatal p e
             \<and> http_Get offline_world n u = Inl e)
      \<and> filter is_Save (fst (main offline_world ?dry)) = []"
    by blast
  from wet(3) run a dry(3) b show ?thesis by blast
qed

text \<open>Against C2 as it is written: the image flag is \<open>auto\<close> and no request can
  succeed, yet the dry run returns normally; it has sent no request at all.\<close>

theorem offline_preview_counterexample:
  "embedImage (flags_of ''auto'' '''' True ''song.mp3'') = ''auto''
   \<and> http_Get offline_world = (\<lambda>n u. Inl (UrlError ''dial tcp: no route to host''))
   \<and> snd (main offline_world (flags_of ''auto'' '''' True ''song.mp3'')) = Returned
   \<and> filter is_HttpGet (fst (main offline_world (flags_of ''auto'' '''' True ''song.mp3''))) = []"
proof -
  let ?fl = "flags_of ''auto'' '''' True ''song.mp3''"
  have "embedImage ?fl = ''auto''"
    by (simp add: flags_of_def)
  moreover have "http_Get offline_world = (\<lambda>n u. Inl (UrlError ''dial tcp: no route to host''))"
    by (simp add: offline_world_def)
  moreover have "snd (main offline_world ?fl) = Returned"
    by code_simp
  moreover have "filter is_HttpGet (fst (main offline_world ?fl)) = []"
    by code_simp
  ultimately show ?thesis by blast
qed

text \<open>
  C10. Take a dry run that gets as far as the embedding steps, with the image flag
  \<open>auto\<close>. The cover-art step prints the search URL and sends nothing. The lyrics step
  takes its automatic branch exactly when the lyrics flag is not empty (the test of
  line 202 is on the image flag): then the only request of the run is the lyrics search,
  and when that lookup fails the run ends in \<^verbatim>\<open>log.Fatal\<close> with its error. With an
  empty lyrics flag the run sends no request and returns. Nothing is saved either way.
\<close>

theorem preview_fetches_lyrics_not_cover:
  assumes dry: "dryRun fl"
    and arg: "mp3File fl \<noteq> ''''"
    and opened: "id3v2_Open w (mp3File fl) = Inr t0"
    and comments: "GetFrames t0 (CommonID ''Comments'') = []
      \<or> (\<exists>c rest. GetFrames t0 (CommonID ''Comments'') = CommentFrame c # rest)"
    and artist: "Artist t0 = Some a"
    and title: "Title t0 = Some ti"
    and auto: "embedImage fl = ''auto''"
  shows "(embedLyrics fl \<noteq> '''' \<longrightarrow>
            filter is_HttpGet (fst (main w fl)) = [HttpGet (lrclib_url a ti)]
            \<and> (\<forall>e. snd (downloadLrc w [] a ti) = Inl e \<longrightarrow> snd (main w fl) = Fatal '''' e))
       \<and> (embedLyrics fl = '''' \<longrightarrow>
            filter is_HttpGet (fst (main w fl)) = [] \<and> snd (main w fl) = Returned)
       \<and> Stdout (''Covert art: '' @ coverArtUrl a ti @ ''\<newline>'') \<in> set (fst (main w fl))
       \<and> filter is_Save (fst (main w fl)) = []"
proof -
  from arg opened have run: "main w fl = edit_tag w fl [Open (mp3File fl)] t0"
    by (rule main_opened)
  from comments obtain t2
    where norm: "normalize_comments w fl (SetDefaultEncoding EncodingUTF16 t0) = Some t2"
    using normalize_comments_typed by blast
  from norm artist title have a2: "Artist t2 = Some a" and ti2: "Title t2 = Some ti"
    by (simp_all add: normalize_comments_texts texts_SetDefaultEncoding)
  let ?tr1 = "if dryRun fl then [Open (mp3File fl)] @ print_frames w t0 else [Open (mp3File fl)]"
  let ?line = "Stdout (''Covert art: '' @ coverArtUrl a ti @ ''\<newline>'')"
  let ?tr2 = "?tr1 @ [Stdout ''\<newline>'', ?line]"
  let ?get = "HttpGet (lrclib_url a ti)"
  from dry auto a2 ti2 have img: "image_step w fl ?tr1 t2 = (?tr2, Inr t2)"
    by (rule image_step_dry_auto)
  have quiet: "filter is_HttpGet ?tr2 = []"
    using dry by (simp add: print_frames_requests)
  then have none: "requests ?tr2 = requests []"
    by (simp add: requests_def)
  have saves: "filter is_Save (fst (main w fl)) = []"
    using dry by (simp add: run edit_tag_saves_dry)
  have skipped: "filter is_HttpGet (fst (main w fl)) = [] \<and> snd (main w fl) = Returned
      \<and> ?line \<in> set (fst (main w fl))"
    if "embedLyrics fl = ''''"
  proof -
    from that have "lyrics_step w fl ?tr2 t2 = (?tr2, Inr t2)" by (rule lyrics_step_skipped)
    with norm img have "edit_tag w fl [Open (mp3File fl)] t0 = save_step w fl ?tr2 t2"
      by (rule edit_tag_saves)
    with dry have "main w fl = (?tr2, Returned)" by (simp add: run save_step_dry)
    with quiet show ?thesis by simp
  qed
  have taken: "filter is_HttpGet (fst (main w fl)) = [?get]
      \<and> (\<forall>e. snd (downloadLrc w [] a ti) = Inl e \<longrightarrow> snd (main w fl) = Fatal '''' e)
      \<and> ?line \<in> set (fst (main w fl))"
    if lyr: "embedLyrics fl \<noteq> ''''"
  proof (cases "snd (downloadLrc w ?tr2 a ti)")
    case (Inl e)
    with lyr auto a2 ti2
    have "lyrics_step w fl ?tr2 t2 = (?tr2 @ [?get], Inl (Fatal '''' e))"
      by (rule lyrics_step_auto_failed)
    with norm img
    have "edit_tag w fl [Open (mp3File fl)] t0 = (?tr2 @ [?get], Fatal '''' e)"
      by (rule edit_tag_lyrics_stops)
    then have "main w fl = (?tr2 @ [?get], Fatal '''' e)"
      by (simp add: run)
    moreover from Inl have "snd (downloadLrc w [] a ti) = Inl e"
      using downloadLrc_same_requests [OF none, of w a ti] by simp
    ultimately show ?thesis using quiet by simp
  next
    case (Inr lyrics)
    let ?tr3 = "?tr2 @ [?get] @ [Stdout ''\<newline>'', Stdout (lyrics @ ''\<newline>'')]"
    from lyr auto a2 ti2 Inr dry
    have "lyrics_step w fl ?tr2 t2 = (?tr3, Inr t2)"
      using downloadLrc_trace [of w ?tr2 a ti]
      by (simp add: lyrics_step_def split_beta)
    with norm img
    have "edit_tag w fl [Open (mp3File fl)] t0 = save_step w fl ?tr3 t2"
      by (rule edit_tag_saves)
    with dry have "main w fl = (?tr3, Returned)"
      by (simp add: run save_step_dry)
    moreover from Inr have "snd (downloadLrc w [] a ti) = Inr lyrics"
      using downloadLrc_same_requests [OF none, of w a ti] by simp
    ultimately show ?thesis using quiet by simp
  qed
  from skipped taken saves show ?thesis by blast
qed

text \<open>The dry run with both flags \<open>auto\<close>, with and without a network, and the dry run
  with the image flag alone.\<close>

theorem preview_fetches_lyrics_not_cover_witness:
  "dryRun (flags_of ''auto'' ''auto'' True ''song.mp3'')
   \<and> filter is_HttpGet (fst (main online_world (flags_of ''auto'' ''auto'' True ''song.mp3'')))
       = [HttpGet (lrclib_url ''A'' ''T'')]
   \<and> Stdout (''Covert art: '' @ coverArtUrl ''A'' ''T'' @ ''\<newline>'')
       \<in> set (fst (main online_world (flags_of ''auto'' ''auto'' True ''song.mp3'')))
   \<and> snd (downloadLrc offline_world [] ''A'' ''T'') = Inl (UrlError ''dial tcp: no route to host'')
   \<and> snd (main offline_world (flags_of ''auto'' ''auto'' True ''song.mp3''))
       = Fatal '''' (UrlError ''dial tcp: no route to host'')
   \<and> filter is_Save (fst (main offline_world (flags_of ''auto'' ''auto'' True ''song.mp3''))) = []
   \<and> embedLyrics (flags_of ''auto'' '''' True ''song.mp3'') = ''''
   \<and> filter is_HttpGet (fst (main online_world (flags_of ''auto'' '''' True ''song.mp3''))) = []
   \<and> snd (main online_world (flags_of ''auto'' '''' True ''song.mp3'')) = Returned"
proof -
  let ?both = "flags_of ''auto'' ''auto'' True ''song.mp3''"
  let ?image = "flags_of ''auto'' '''' True ''song.mp3''"
  have comments: "GetFrames example_tag (CommonID ''Comments'') = []
      \<or> (\<exists>c rest. GetFrames example_tag (CommonID ''Comments'') = CommentFrame c # rest)"
    by (simp add: example_tag_facts)
  have both: "dryRun ?both" "mp3File ?both \<noteq> ''''" "embedImage ?both = ''auto''"
    "embedLyrics ?both \<noteq> ''''"
    by (simp_all add: flags_of_def)
  have image: "dryRun ?image" "mp3File ?image \<noteq> ''''" "embedImage ?image = ''auto''"
    "embedLyrics ?image = ''''"
    by (simp_all add: flags_of_def)
  have failed: "snd (downloadLrc offline_world [] ''A'' ''T'')
      = Inl (UrlError ''dial tcp: no route to host'')"
    by (simp add: downloadLrc_request_failed offline_world_def)
  from preview_fetches_lyrics_not_cover
    [OF both(1,2) example_opened(2) comments example_tag_facts(2,3) both(3)] both(4)
  have on: "filter is_HttpGet (fst (main online_world ?both)) = [HttpGet (lrclib_url ''A'' ''T'')]
      \<and> Stdout (''Covert art: '' @ coverArtUrl ''A'' ''T'' @ ''\<newline>'')
          \<in> set (fst (main online_world ?both))"
    by blast
  from preview_fetches_lyrics_not_cover
    [OF both(1,2) example_opened(1) comments example_tag_facts(2,3) both(3)] both(4) failed
  have off: "snd (main offline_world ?both) = Fatal '''' (UrlError ''dial tcp: no route to host'')
      \<and> filter is_Save (fst (main offline_world ?both)) = []"
    by blast
  from preview_fetches_lyrics_not_cover
    [OF image(1,2) example_opened(2) comments example_tag_facts(2,3) image(3)] image(4)
  have alone: "filter is_HttpGet (fst (main online_world ?image)) = []
      \<and> snd (main online_world ?image) = Returned"
    by blast
  from both(1) on failed off image(4) alone show ?thesis by blast
qed

text \<open>
  C1 against the code. With the lyrics flag \<open>auto\<close> and no image flag, \<^verbatim>\<open>main\<close> of
  \<^verbatim>\<open>main.go\<close> sends no request: it reads a local file named \<open>auto\<close> and embeds it.
  The lyrics step of the revised copy sends the lyrics search on the same input. With
  the image flag \<open>auto\<close> and a lyrics file named on the command line, a dry run of
  \<^verbatim>\<open>main.go\<close> sends the lyrics search, although the lyrics flag is not \<open>auto\<close>.
\<close>

theorem lyrics_auto_reads_local_file:
  "embedLyrics (flags_of '''' ''auto'' False ''song.mp3'') = ''auto''
   \<and> filter is_HttpGet (fst (main online_world (flags_of '''' ''auto'' False ''song.mp3''))) = []
   \<and> ReadFile ''auto'' \<in> set (fst (main online_world (flags_of '''' ''auto'' False ''song.mp3'')))
   \<and> snd (main online_world (flags_of '''' ''auto'' False ''song.mp3'')) = Returned
   \<and> filter is_HttpGet
        (fst (lyrics_step_part_000 online_world (flags_of '''' ''auto'' False ''song.mp3'') []
               example_tag))
       = [HttpGet (lrclib_url ''A'' ''T'')]
   \<and> embedLyrics (flags_of ''auto'' ''lyrics.lrc'' True ''song.mp3'') = ''lyrics.lrc''
   \<and> filter is_HttpGet
        (fst (main online_world (flags_of ''auto'' ''lyrics.lrc'' True ''song.mp3'')))
       = [HttpGet (lrclib_url ''A'' ''T'')]"
proof -
  let ?fl = "flags_of '''' ''auto'' False ''song.mp3''"
  let ?fl2 = "flags_of ''auto'' ''lyrics.lrc'' True ''song.mp3''"
  have "embedLyrics ?fl = ''auto''" "embedLyrics ?fl2 = ''lyrics.lrc''"
    by (simp_all add: flags_of_def)
  moreover have "filter is_HttpGet (fst (main online_world ?fl)) = []"
    by code_simp
  moreover have "ReadFile ''auto'' \<in> set (fst (main online_world ?fl))"
    by code_simp
  moreover have "snd (main online_world ?fl) = Returned"
    by code_simp
  moreover have "filter is_HttpGet (fst (lyrics_step_part_000 online_world ?fl [] example_tag))
       = [HttpGet (lrclib_url ''A'' ''T'')]"
    by code_simp
  moreover have "filter is_HttpGet (fst (main online_world ?fl2))
       = [HttpGet (lrclib_url ''A'' ''T'')]"
    by code_simp
  ultimately show ?thesis by blast
qed

end
